theory Spec2Isabelle
  imports Main
begin

section \<open>Option helpers of \<open>klio_core/options.py\<close>\<close>

text \<open>
  The module adds three things to the command-line library it builds on: an option class
  that checks mutual exclusivity (\<open>MutuallyExclusiveOption\<close>), a callback that checks
  the \<open>gs://\<close> prefix of a value (\<open>_verify_gcs_uri\<close>), and shared option
  declarations (\<open>job_dir\<close>, \<open>config_file\<close>). Exceptions are values of \<open>error\<close>,
  returned as \<open>Inl\<close>. Names that start with an underscore in the source lose it here.
\<close>

datatype error = UsageError string | BadParameter string | TypeError

subsection \<open>String primitives of the host language\<close>

text \<open>
  The primitives are stated for lists of any element type. A \<open>string\<close> here is a list
  of bytes; the patterns of this module (\<open>_\<close>, \<open>-\<close>, \<open>gs://\<close>) are ASCII, and an
  ASCII byte is never part of a longer UTF-8 sequence, so replacing and prefix testing on
  the bytes agree with the source's operations on code points.

  \<open>str.replace(old, new)\<close>: scan from the left, replace each occurrence of \<open>old\<close>
  that does not overlap the one before; an empty \<open>old\<close> matches before every character
  and at the end.
\<close>

function str_replace :: "'a list \<Rightarrow> 'a list \<Rightarrow> 'a list \<Rightarrow> 'a list" where
  "str_replace old new [] = (if old = [] then new else [])"
| "str_replace old new (c # cs) =
     (if old = [] then new @ c # str_replace old new cs
      else if take (length old) (c # cs) = old
        then new @ str_replace old new (drop (length old) (c # cs))
      else c # str_replace old new cs)"
  by pat_completeness auto
termination
  by (relation "measure (\<lambda>(old, new, s). length s)") (auto simp: neq_Nil_conv)

text \<open>\<open>s.startswith(p)\<close>: the first \<open>len(p)\<close> characters of \<open>s\<close> are \<open>p\<close>.\<close>

definition startswith :: "'a list \<Rightarrow> 'a list \<Rightarrow> bool" where
  "startswith s p = (take (length p) s = p)"

text \<open>\<open>sep.join(xs)\<close>.\<close>

fun join :: "'a list \<Rightarrow> 'a list list \<Rightarrow> 'a list" where
  "join sep [] = []"
| "join sep [x] = x"
| "join sep (x # y # ys) = x @ sep @ join sep (y # ys)"

subsection \<open>Flag rendering\<close>

text \<open>\<open>MutuallyExclusiveOption._varname_to_opt_flag\<close>: \<open>"--" + var.replace("_", "-")\<close>.\<close>

definition varname_to_opt_flag :: "string \<Rightarrow> string" where
  "varname_to_opt_flag var = ''--'' @ str_replace ''_'' ''-'' var"

subsection \<open>The GCS location callback\<close>

text \<open>
  \<open>_verify_gcs_uri(ctx, param, value)\<close>. The value of a string option is \<open>None\<close> when
  the option was not given and a string otherwise; \<open>None\<close> and the empty string are the
  falsy ones.
\<close>

definition verify_gcs_uri :: "'c \<Rightarrow> 'p \<Rightarrow> string option \<Rightarrow> error + string option" where
  "verify_gcs_uri ctx param val =
     (case val of
        None \<Rightarrow> Inr val
      | Some s \<Rightarrow>
          if s \<noteq> [] \<and> \<not> startswith s ''gs://''
          then Inl (BadParameter
            (''Unsupported location type. Please provide a GCS location with ''
             @ ''the `gs://` prefix.''))
          else Inr val)"

subsection \<open>The mutually exclusive option\<close>

text \<open>
  \<open>set(xs)\<close>. The companions are kept in a set of the host language, which the code
  only tests for emptiness, intersects and iterates. A set is modelled by the list of its
  members in the order an iteration yields them. The language leaves that order open, so
  it is a parameter: \<open>order\<close> lists the members the way the runtime happens to arrange
  them, and members that \<open>order\<close> does not mention follow in the order of \<open>xs\<close>.
\<close>

definition py_set :: "'a list \<Rightarrow> 'a list \<Rightarrow> 'a list" where
  "py_set order xs =
     filter (\<lambda>x. x \<in> set xs) (remdups order) @ filter (\<lambda>x. x \<notin> set order) (remdups xs)"

text \<open>
  The \<open>help\<close> keyword of an option declaration: left out, passed as \<open>None\<close> (the
  library's own default), or a string.
\<close>

datatype help_kw = NoHelp | HelpNone | HelpStr string

text \<open>
  The object after \<open>__init__\<close>. \<open>click.Option.__init__\<close> belongs to the library:
  of what it stores, the model keeps the \<open>name\<close> it derives from the declared flags and
  the \<open>help\<close> keyword that this class hands to it.
\<close>

record mutex_option =
  name :: string
  help_kwarg :: help_kw
  mut_ex_opts :: "string list"

text \<open>\<open>kwargs.get("help", "")\<close>; the result is \<open>None\<close> when the keyword holds \<open>None\<close>.\<close>

fun get_help :: "help_kw \<Rightarrow> string option" where
  "get_help NoHelp = Some []"
| "get_help HelpNone = None"
| "get_help (HelpStr h) = Some h"

text \<open>
  \<open>MutuallyExclusiveOption.__init__\<close>. \<open>mutually_exclusive\<close> is the keyword of that
  name (\<open>None\<close> when it was left out, so that \<open>pop\<close> gives the empty list), \<open>nm\<close>
  the name the library derives. Adding the note to a help text that is \<open>None\<close> is a
  type error of the host language.
\<close>

definition init ::
  "string list \<Rightarrow> string \<Rightarrow> string list option \<Rightarrow> help_kw \<Rightarrow> error + mutex_option" where
  "init order nm mutually_exclusive help =
     (let mut_ex = py_set order (case mutually_exclusive of None \<Rightarrow> [] | Some xs \<Rightarrow> xs);
          help_text = get_help help
      in if mut_ex \<noteq> [] then
           (let mutex = map varname_to_opt_flag mut_ex;
                mutex_fmted = map (\<lambda>m. ''``'' @ m @ ''``'') mutex;
                ex_str = join '', '' mutex_fmted
            in case help_text of
                 None \<Rightarrow> Inl TypeError
               | Some h \<Rightarrow>
                   Inr \<lparr>name = nm,
                        help_kwarg = HelpStr (h @
                          [CHR 0x0A, CHR 0x0A]
                          @ ''**NOTE:** This option is mutually exclusive with ''
                          @ ''['' @ ex_str @ ''].''),
                        mut_ex_opts = mut_ex\<rparr>)
         else Inr \<lparr>name = nm, help_kwarg = help, mut_ex_opts = mut_ex\<rparr>)"

text \<open>
  \<open>self.mut_ex_opts.intersection(opts)\<close>, where \<open>opts\<close> is the dictionary of the
  options that were supplied: the members of the set that are keys of \<open>opts\<close>.
\<close>

definition intersection :: "'k list \<Rightarrow> ('k \<rightharpoonup> 'v) \<Rightarrow> 'k list" where
  "intersection ms opts = filter (\<lambda>m. opts m \<noteq> None) ms"

text \<open>
  \<open>MutuallyExclusiveOption.handle_parse_result\<close>. \<open>super\<close> is
  \<open>click.Option.handle_parse_result\<close>, the library's handling, which may itself return
  or raise; its outcome is passed on as it is.
\<close>

definition handle_parse_result ::
  "(mutex_option \<Rightarrow> 'c \<Rightarrow> (string \<rightharpoonup> 'v) \<Rightarrow> 'a \<Rightarrow> error + 'r)
   \<Rightarrow> mutex_option \<Rightarrow> 'c \<Rightarrow> (string \<rightharpoonup> 'v) \<Rightarrow> 'a \<Rightarrow> error + 'r" where
  "handle_parse_result super self ctx opts args =
     (if intersection (mut_ex_opts self) opts \<noteq> [] \<and> opts (name self) \<noteq> None then
        (let mutex = map (\<lambda>m. ''`'' @ varname_to_opt_flag m @ ''`'') (mut_ex_opts self);
             mutex = join '', '' mutex;
             msg = ''Illegal usage: `'' @ varname_to_opt_flag (name self)
                   @ ''` is mutually exclusive with '' @ mutex @ ''.''
         in Inl (UsageError msg))
      else super self ctx opts args)"

subsection \<open>Shared option declarations\<close>

text \<open>
  The keyword values that the declarations hand to \<open>click.option\<close>: a string, a list of
  strings, the path type \<open>click.Path(exists=b)\<close>, and the class
  \<open>MutuallyExclusiveOption\<close>.
\<close>

datatype attr = AStr string | AStrList "string list" | Path bool | MutuallyExclusiveOption

text \<open>
  What a factory returns: the decorated command, when it was applied to one, or the
  decorator \<open>wrapper\<close>.
\<close>

datatype ('f, 'd) factory_result = Decorated 'd | Wrapper "'f \<Rightarrow> 'd"

text \<open>
  \<open>job_dir(*args, **kwargs)\<close> and \<open>config_file(*args, **kwargs)\<close>.
  \<open>click_option decls attrs func\<close> stands for the library's
  \<open>click.option(*decls, **attrs)(func)\<close>; the keywords are listed in the order of the
  source. \<open>kwargs\<close> maps a keyword to the list it was given.
\<close>

definition job_dir ::
  "(string list \<Rightarrow> (string \<times> attr) list \<Rightarrow> 'f \<Rightarrow> 'd) \<Rightarrow> 'f list \<Rightarrow> (string \<rightharpoonup> string list)
   \<Rightarrow> ('f, 'd) factory_result" where
  "job_dir click_option args kwargs =
     (let mutually_exclusive = (case kwargs ''mutex'' of None \<Rightarrow> [] | Some m \<Rightarrow> m);
          wrapper = (\<lambda>func. click_option [''-j'', ''--job-dir'']
            [(''type'', Path True),
             (''help'', AStr (''Job directory where the job's ``Dockerfile`` is located. ''
                @ ''Defaults current working directory.'')),
             (''cls'', MutuallyExclusiveOption),
             (''mutually_exclusive'', AStrList mutually_exclusive)] func)
      in case args of
           func # _ \<Rightarrow> Decorated (wrapper func)
         | [] \<Rightarrow> Wrapper wrapper)"

definition config_file ::
  "(string list \<Rightarrow> (string \<times> attr) list \<Rightarrow> 'f \<Rightarrow> 'd) \<Rightarrow> 'f list \<Rightarrow> (string \<rightharpoonup> string list)
   \<Rightarrow> ('f, 'd) factory_result" where
  "config_file click_option args kwargs =
     (let mutually_exclusive = (case kwargs ''mutex'' of None \<Rightarrow> [] | Some m \<Rightarrow> m);
          wrapper = (\<lambda>func. click_option [''-c'', ''--config-file'']
            [(''type'', Path False),
             (''help'', AStr (''Path to config filename. If ``PATH`` is not absolute, it ''
                @ ''will be treated relative to ``--job-dir``. Defaults to ''
                @ ''``klio-job.yaml``.'')),
             (''cls'', MutuallyExclusiveOption),
             (''mutually_exclusive'', AStrList mutually_exclusive)] func)
      in case args of
           func # _ \<Rightarrow> Decorated (wrapper func)
         | [] \<Rightarrow> Wrapper wrapper)"

text \<open>
  A stand-in for \<open>click.option\<close> that keeps what it is given, to read a declaration off
  a decorated command.
\<close>

definition declared ::
  "string list \<Rightarrow> (string \<times> attr) list \<Rightarrow> 'f
   \<Rightarrow> string list \<times> (string \<times> attr) list \<times> 'f" where
  "declared decls attrs func = (decls, attrs, func)"

text \<open>
  A stand-in for the library's handling, to run \<open>handle_parse_result\<close> on concrete
  inputs: it returns the value that was supplied for the option, if any.
\<close>

definition click_handle ::
  "mutex_option \<Rightarrow> unit \<Rightarrow> (string \<rightharpoonup> string) \<Rightarrow> unit \<Rightarrow> error + string option" where
  "click_handle self ctx opts args = Inr (opts (name self))"

section \<open>Properties\<close>

subsection \<open>Flag rendering\<close>

lemma str_replace_single:
  "str_replace [a] [b] s = map (\<lambda>c. if c = a then b else c) s"
  by (induction s) simp_all

text \<open>
  C5. For every identifier, the rendered flag is \<open>--\<close> followed by the identifier with
  each underscore turned into a hyphen; \<open>an_option\<close> becomes \<open>--an-option\<close>.
\<close>

theorem varname_to_opt_flag_spec:
  "varname_to_opt_flag var = ''--'' @ map (\<lambda>c. if c = CHR ''_'' then CHR ''-'' else c) var
   \<and> varname_to_opt_flag ''an_option'' = ''--an-option''"
  by (simp add: varname_to_opt_flag_def str_replace_single)

subsection \<open>The GCS location callback\<close>

lemma startswith_iff: "startswith s p \<longleftrightarrow> (\<exists>rest. s = p @ rest)"
  unfolding startswith_def
  by (metis append_eq_conv_conj append_take_drop_id)

text \<open>
  C3. The callback returns its value untouched when the value is absent, empty or starts
  with \<open>gs://\<close>, and raises the bad-parameter error that asks for a \<open>gs://\<close> location
  otherwise; whatever it returns is the value it was given.
\<close>

theorem verify_gcs_uri_spec:
  "verify_gcs_uri ctx param val =
     (if val = None \<or> val = Some [] \<or> (\<exists>rest. val = Some (''gs://'' @ rest))
      then Inr val
      else Inl (BadParameter
        ''Unsupported location type. Please provide a GCS location with the `gs://` prefix.''))
   \<and> (\<forall>r. verify_gcs_uri ctx param val = Inr r \<longrightarrow> r = val)"
  by (cases val) (auto simp: verify_gcs_uri_def startswith_iff)

theorem verify_gcs_uri_spec_witness:
  "verify_gcs_uri () () None = Inr None
   \<and> verify_gcs_uri () () (Some []) = Inr (Some [])
   \<and> verify_gcs_uri () () (Some ''gs://bucket/path'') = Inr (Some ''gs://bucket/path'')
   \<and> verify_gcs_uri () () (Some ''s3://bucket'') = Inl (BadParameter
        ''Unsupported location type. Please provide a GCS location with the `gs://` prefix.'')
   \<and> verify_gcs_uri () () (Some ''/local/path'') = Inl (BadParameter
        ''Unsupported location type. Please provide a GCS location with the `gs://` prefix.'')"
  using verify_gcs_uri_spec [of "()" "()" None] verify_gcs_uri_spec [of "()" "()" "Some []"]
    verify_gcs_uri_spec [of "()" "()" "Some ''gs://bucket/path''"]
    verify_gcs_uri_spec [of "()" "()" "Some ''s3://bucket''"]
    verify_gcs_uri_spec [of "()" "()" "Some ''/local/path''"]
  by simp

subsection \<open>The set of companions\<close>

text \<open>
  The list that models the set has no duplicates and the members of the argument, and
  every arrangement of those members is the model's for some \<open>order\<close>.
\<close>

lemma py_set_distinct: "distinct (py_set order xs)"
  by (auto simp: py_set_def)

lemma py_set_set: "set (py_set order xs) = set xs"
  by (auto simp: py_set_def)

lemma py_set_any_order: "distinct ys \<Longrightarrow> set ys = set xs \<Longrightarrow> py_set ys xs = ys"
  by (simp add: py_set_def distinct_remdups_id)

lemma py_set_empty_iff: "py_set order xs = [] \<longleftrightarrow> xs = []"
  using py_set_set [of order xs] by (metis set_empty)

lemma intersection_empty_iff: "intersection ms opts = [] \<longleftrightarrow> dom opts \<inter> set ms = {}"
  by (auto simp: intersection_def filter_empty_conv dom_def)

lemma init_type_error:
  "init order nm mutually_exclusive hk = Inl e \<longleftrightarrow>
     e = TypeError \<and> hk = HelpNone
     \<and> (case mutually_exclusive of None \<Rightarrow> [] | Some xs \<Rightarrow> xs) \<noteq> []"
  by (cases hk; cases mutually_exclusive) (auto simp: init_def Let_def py_set_empty_iff)

lemma init_Inr_fields:
  assumes "init order nm (Some xs) help = Inr a"
  shows "name a = nm" and "mut_ex_opts a = py_set order xs"
    and "xs \<noteq> [] \<Longrightarrow> \<exists>h. help_kwarg a = HelpStr (h @ [CHR 0x0A, CHR 0x0A]
                @ ''**NOTE:** This option is mutually exclusive with [''
                @ join '', '' (map (\<lambda>m. ''``'' @ varname_to_opt_flag m @ ''``'') (py_set order xs))
                @ ''].'')"
  using assms
  by (auto simp: init_def Let_def comp_def py_set_empty_iff split: if_splits option.splits)

subsection \<open>The mutual exclusivity check\<close>

text \<open>
  C1. Handling raises the usage error when the option's own name is among the supplied
  names and a companion is supplied too. In every other case, also when only a companion
  is supplied, the outcome is the library's own handling of the same arguments, whatever
  that is; so the error of this method is raised in the first case only.
\<close>

theorem handle_parse_result_spec:
  "(name self \<in> dom opts \<and> dom opts \<inter> set (mut_ex_opts self) \<noteq> {}
      \<longrightarrow> (\<exists>msg. handle_parse_result super self ctx opts args = Inl (UsageError msg)))
   \<and> (\<not> (name self \<in> dom opts \<and> dom opts \<inter> set (mut_ex_opts self) \<noteq> {})
      \<longrightarrow> handle_parse_result super self ctx opts args = super self ctx opts args)"
  by (auto simp: handle_parse_result_def Let_def intersection_empty_iff dom_def)

theorem handle_parse_result_spec_witness:
  "handle_parse_result click_handle
      \<lparr>name = ''job_dir'', help_kwarg = NoHelp, mut_ex_opts = [''config_file'']\<rparr> ()
      (map_of [(''job_dir'', ''/tmp''), (''config_file'', ''x.yaml'')]) ()
    = Inl (UsageError ''Illegal usage: `--job-dir` is mutually exclusive with `--config-file`.'')
   \<and> handle_parse_result click_handle
      \<lparr>name = ''job_dir'', help_kwarg = NoHelp, mut_ex_opts = [''config_file'']\<rparr> ()
      (map_of [(''config_file'', ''x.yaml'')]) ()
    = Inr None
   \<and> handle_parse_result click_handle
      \<lparr>name = ''job_dir'', help_kwarg = NoHelp, mut_ex_opts = [''config_file'']\<rparr> ()
      (map_of [(''job_dir'', ''/tmp'')]) ()
    = Inr (Some ''/tmp'')"
  using handle_parse_result_spec [of
      "\<lparr>name = ''job_dir'', help_kwarg = NoHelp, mut_ex_opts = [''config_file'']\<rparr>"
      "map_of [(''job_dir'', ''/tmp''), (''config_file'', ''x.yaml'')]" click_handle "()" "()"]
    handle_parse_result_spec [of
      "\<lparr>name = ''job_dir'', help_kwarg = NoHelp, mut_ex_opts = [''config_file'']\<rparr>"
      "map_of [(''config_file'', ''x.yaml'')]" click_handle "()" "()"]
    handle_parse_result_spec [of
      "\<lparr>name = ''job_dir'', help_kwarg = NoHelp, mut_ex_opts = [''config_file'']\<rparr>"
      "map_of [(''job_dir'', ''/tmp'')]" click_handle "()" "()"]
  by (simp add: handle_parse_result_def intersection_def varname_to_opt_flag_def click_handle_def)




text \<open>
  C9. An option whose companion set holds its own name conflicts with itself: handling
  raises the usage error in every invocation that supplies the option.
\<close>

theorem self_companion_conflict:
  assumes "name self \<in> set (mut_ex_opts self)" and "name self \<in> dom opts"
  shows "\<exists>msg. handle_parse_result super self ctx opts args = Inl (UsageError msg)"
  using assms
  by (auto simp: handle_parse_result_def Let_def intersection_def filter_empty_conv)

theorem self_companion_conflict_witness:
  "handle_parse_result click_handle
      \<lparr>name = ''job_dir'', help_kwarg = NoHelp, mut_ex_opts = [''job_dir'']\<rparr> ()
      (map_of [(''job_dir'', ''/tmp'')]) ()
    = Inl (UsageError ''Illegal usage: `--job-dir` is mutually exclusive with `--job-dir`.'')"
  using self_companion_conflict [of
      "\<lparr>name = ''job_dir'', help_kwarg = NoHelp, mut_ex_opts = [''job_dir'']\<rparr>"
      "map_of [(''job_dir'', ''/tmp'')]" click_handle "()" "()"]
  by (simp add: handle_parse_result_def intersection_def varname_to_opt_flag_def)

subsection \<open>Construction\<close>

text \<open>
  C4. With no companions (the keyword left out, or an empty list) the option is a plain
  one: the help keyword reaches the library as the caller gave it, and handling is the
  library's handling for every set of supplied options.
\<close>

theorem empty_companions_plain:
  assumes "mutually_exclusive = None \<or> mutually_exclusive = Some []"
  shows "init order nm mutually_exclusive help
           = Inr \<lparr>name = nm, help_kwarg = help, mut_ex_opts = []\<rparr>
     \<and> handle_parse_result super \<lparr>name = nm, help_kwarg = help, mut_ex_opts = []\<rparr> ctx opts args
           = super \<lparr>name = nm, help_kwarg = help, mut_ex_opts = []\<rparr> ctx opts args"
  using assms
  by (auto simp: init_def py_set_def handle_parse_result_def intersection_def)

theorem empty_companions_plain_witness:
  "init [''x''] ''job_dir'' (Some []) (HelpStr ''Job directory.'')
      = Inr \<lparr>name = ''job_dir'', help_kwarg = HelpStr ''Job directory.'', mut_ex_opts = []\<rparr>
   \<and> init [''x''] ''job_dir'' None HelpNone
      = Inr \<lparr>name = ''job_dir'', help_kwarg = HelpNone, mut_ex_opts = []\<rparr>
   \<and> handle_parse_result click_handle
        \<lparr>name = ''job_dir'', help_kwarg = HelpStr ''Job directory.'', mut_ex_opts = []\<rparr> ()
        (map_of [(''job_dir'', ''/tmp''), (''config_file'', ''x.yaml'')]) ()
      = Inr (Some ''/tmp'')"
  using empty_companions_plain [of "Some []" "[''x'']" "''job_dir''" "HelpStr ''Job directory.''"
      click_handle "()" "map_of [(''job_dir'', ''/tmp''), (''config_file'', ''x.yaml'')]" "()"]
    empty_companions_plain [of None "[''x'']" "''job_dir''" HelpNone
      click_handle "()" "map_of [(''job_dir'', ''/tmp''), (''config_file'', ''x.yaml'')]" "()"]
  by (simp add: click_handle_def)



text \<open>
  C10. The companions are kept as a set: however often a name was listed, it is stored
  once, so the note and the message have one entry for each companion, and two
  declarations that list the same names, whatever the repetitions, raise the error for
  the same invocations and delegate for the others.
\<close>

theorem companions_deduplicated:
  assumes "set xs = set ys"
    and "init order nm (Some xs) help = Inr a"
    and "init order' nm (Some ys) help = Inr b"
  shows "distinct (mut_ex_opts a) \<and> set (mut_ex_opts a) = set xs
     \<and> length (mut_ex_opts a) = card (set xs)
     \<and> (xs \<noteq> [] \<longrightarrow> (\<exists>h. help_kwarg a = HelpStr (h @ [CHR 0x0A, CHR 0x0A]
            @ ''**NOTE:** This option is mutually exclusive with [''
            @ join '', '' (map (\<lambda>m. ''``'' @ varname_to_opt_flag m @ ''``'') (mut_ex_opts a))
            @ ''].'')))
     \<and> ((handle_parse_result super a ctx opts args =
            Inl (UsageError (''Illegal usage: `'' @ varname_to_opt_flag nm
              @ ''` is mutually exclusive with ''
              @ join '', '' (map (\<lambda>m. ''`'' @ varname_to_opt_flag m @ ''`'') (mut_ex_opts a))
              @ ''.''))
          \<and> (\<exists>msg. handle_parse_result super' b ctx opts args = Inl (UsageError msg)))
        \<or> (handle_parse_result super a ctx opts args = super a ctx opts args
          \<and> handle_parse_result super' b ctx opts args = super' b ctx opts args))"
proof -
  note fa = init_Inr_fields [OF assms(2)] and fb = init_Inr_fields [OF assms(3)]
  have d: "distinct (mut_ex_opts a)" and s: "set (mut_ex_opts a) = set xs"
    by (simp_all add: fa py_set_distinct py_set_set)
  have sb: "set (mut_ex_opts b) = set xs"
    by (simp add: fb py_set_set assms(1))
  have l: "length (mut_ex_opts a) = card (set xs)"
    using d s by (metis distinct_card)
  have h: "xs \<noteq> [] \<longrightarrow> (\<exists>h. help_kwarg a = HelpStr (h @ [CHR 0x0A, CHR 0x0A]
            @ ''**NOTE:** This option is mutually exclusive with [''
            @ join '', '' (map (\<lambda>m. ''``'' @ varname_to_opt_flag m @ ''``'') (mut_ex_opts a))
            @ ''].''))"
    using fa(3) by (simp add: fa(2))
  have o: "(handle_parse_result super a ctx opts args =
            Inl (UsageError (''Illegal usage: `'' @ varname_to_opt_flag nm
              @ ''` is mutually exclusive with ''
              @ join '', '' (map (\<lambda>m. ''`'' @ varname_to_opt_flag m @ ''`'') (mut_ex_opts a))
              @ ''.''))
          \<and> (\<exists>msg. handle_parse_result super' b ctx opts args = Inl (UsageError msg)))
        \<or> (handle_parse_result super a ctx opts args = super a ctx opts args
          \<and> handle_parse_result super' b ctx opts args = super' b ctx opts args)"
  proof (cases "nm \<in> dom opts \<and> dom opts \<inter> set xs \<noteq> {}")
    case True
    then show ?thesis
      using s sb fa(1) fb(1)
      by (auto simp: handle_parse_result_def Let_def intersection_empty_iff dom_def)
  next
    case False
    then show ?thesis
      using s sb fa(1) fb(1)
      by (auto simp: handle_parse_result_def Let_def intersection_empty_iff dom_def)
  qed
  from d s l h o show ?thesis by blast
qed

theorem companions_deduplicated_witness:
  "init [] ''job_dir'' (Some [''config_file'', ''image_tag'', ''config_file'']) NoHelp
     = Inr \<lparr>name = ''job_dir'',
          help_kwarg = HelpStr ([CHR 0x0A, CHR 0x0A]
            @ ''**NOTE:** This option is mutually exclusive with ''
            @ ''[``--image-tag``, ``--config-file``].''),
          mut_ex_opts = [''image_tag'', ''config_file'']\<rparr>
   \<and> handle_parse_result click_handle
        \<lparr>name = ''job_dir'',
          help_kwarg = HelpStr ([CHR 0x0A, CHR 0x0A]
            @ ''**NOTE:** This option is mutually exclusive with ''
            @ ''[``--image-tag``, ``--config-file``].''),
          mut_ex_opts = [''image_tag'', ''config_file'']\<rparr> ()
        (map_of [(''job_dir'', ''/tmp''), (''config_file'', ''x.yaml'')]) ()
     = Inl (UsageError
        ''Illegal usage: `--job-dir` is mutually exclusive with `--image-tag`, `--config-file`.'')"
proof -
  have a: "init [] ''job_dir'' (Some [''config_file'', ''image_tag'', ''config_file'']) NoHelp
     = Inr \<lparr>name = ''job_dir'',
          help_kwarg = HelpStr ([CHR 0x0A, CHR 0x0A]
            @ ''**NOTE:** This option is mutually exclusive with ''
            @ ''[``--image-tag``, ``--config-file``].''),
          mut_ex_opts = [''image_tag'', ''config_file'']\<rparr>"
    by (simp add: init_def py_set_def varname_to_opt_flag_def)
  have b: "init [] ''job_dir'' (Some [''config_file'', ''image_tag'']) NoHelp
     = Inr \<lparr>name = ''job_dir'',
          help_kwarg = HelpStr ([CHR 0x0A, CHR 0x0A]
            @ ''**NOTE:** This option is mutually exclusive with ''
            @ ''[``--config-file``, ``--image-tag``].''),
          mut_ex_opts = [''config_file'', ''image_tag'']\<rparr>"
    by (simp add: init_def py_set_def varname_to_opt_flag_def)
  have e: "set [''config_file'', ''image_tag'', ''config_file''] = set [''config_file'', ''image_tag'']"
    by auto
  show ?thesis
    using companions_deduplicated [OF e a b, of click_handle "()"
        "map_of [(''job_dir'', ''/tmp''), (''config_file'', ''x.yaml'')]" "()" click_handle] a
    by (simp add: handle_parse_result_def intersection_def varname_to_opt_flag_def)
qed

subsection \<open>Shared option declarations\<close>

text \<open>
  C7 as stated: the value of the job directory would default to the current working
  directory. The declaration that \<open>job_dir\<close> attaches to a command has the keywords
  \<open>type\<close>, \<open>help\<close>, \<open>cls\<close> and \<open>mutually_exclusive\<close> and no
  \<open>default\<close>: the library is given no value to use when the option is absent.
\<close>

theorem job_dir_default_counterexample:
  "job_dir declared [()] (map_of []) =
     Decorated ([''-j'', ''--job-dir''],
       [(''type'', Path True),
        (''help'', AStr
          ''Job directory where the job's ``Dockerfile`` is located. Defaults current working directory.''),
        (''cls'', MutuallyExclusiveOption),
        (''mutually_exclusive'', AStrList [])], ())
   \<and> map_of [(''type'', Path True),
        (''help'', AStr
          ''Job directory where the job's ``Dockerfile`` is located. Defaults current working directory.''),
        (''cls'', MutuallyExclusiveOption),
        (''mutually_exclusive'', AStrList [])] ''default'' = None"
  by (simp add: job_dir_def declared_def)

text \<open>
  C7, amended. The job directory option is declared with the flags \<open>-j\<close> and
  \<open>--job-dir\<close> and the path type that requires the path to exist. The declaration
  has no default; that the job directory defaults to the current working directory is
  what its help text says, and is left to the code that consumes the value.
\<close>

theorem job_dir_declaration:
  "\<exists>attrs. job_dir click_option args kwargs =
       (case args of func # _ \<Rightarrow> Decorated (click_option [''-j'', ''--job-dir''] attrs func)
        | [] \<Rightarrow> Wrapper (click_option [''-j'', ''--job-dir''] attrs))
     \<and> map_of attrs ''type'' = Some (Path True)
     \<and> map_of attrs ''default'' = None
     \<and> map_of attrs ''help'' = Some (AStr
          ''Job directory where the job's ``Dockerfile`` is located. Defaults current working directory.'')"
proof (cases args)
  case Nil
  show ?thesis
    unfolding job_dir_def Let_def Nil list.case
    by (rule exI, intro conjI, rule refl) simp_all
next
  case (Cons func rest)
  show ?thesis
    unfolding job_dir_def Let_def Cons list.case
    by (rule exI, intro conjI, rule refl) simp_all
qed

text \<open>
  C8. For \<open>job_dir\<close> and for \<open>config_file\<close>, the factory applied to a command
  gives what the factory called without arguments gives when its result is applied to
  the command: the same declaration, with an empty list of companions.
\<close>

theorem bare_and_called_agree:
  "(\<exists>wrapper attrs. job_dir click_option [] Map.empty = Wrapper wrapper
       \<and> job_dir click_option [func] Map.empty = Decorated (wrapper func)
       \<and> wrapper = click_option [''-j'', ''--job-dir''] attrs
       \<and> map_of attrs ''mutually_exclusive'' = Some (AStrList []))
   \<and> (\<exists>wrapper attrs. config_file click_option [] Map.empty = Wrapper wrapper
       \<and> config_file click_option [func] Map.empty = Decorated (wrapper func)
       \<and> wrapper = click_option [''-c'', ''--config-file''] attrs
       \<and> map_of attrs ''mutually_exclusive'' = Some (AStrList []))"
proof (intro conjI)
  show "\<exists>wrapper attrs. job_dir click_option [] Map.empty = Wrapper wrapper
       \<and> job_dir click_option [func] Map.empty = Decorated (wrapper func)
       \<and> wrapper = click_option [''-j'', ''--job-dir''] attrs
       \<and> map_of attrs ''mutually_exclusive'' = Some (AStrList [])"
    unfolding job_dir_def Let_def list.case
    by (intro exI conjI, rule refl, rule refl, rule refl) simp
  show "\<exists>wrapper attrs. config_file click_option [] Map.empty = Wrapper wrapper
       \<and> config_file click_option [func] Map.empty = Decorated (wrapper func)
       \<and> wrapper = click_option [''-c'', ''--config-file''] attrs
       \<and> map_of attrs ''mutually_exclusive'' = Some (AStrList [])"
    unfolding config_file_def Let_def list.case
    by (intro exI conjI, rule refl, rule refl, rule refl) simp
qed

end
